theory Spec2Isabelle
  imports Main
begin

section \<open>The persistent store\<close>

text \<open>
  The \<open>users\<close> table is reached through the Supabase client, which is not part of the
  repository. A query answers with a row or with an error object carrying a code; the
  helpers of \<open>userHelpers.js\<close> tell the code \<open>PGRST116\<close> (\<open>.single()\<close> found no row)
  from every other error. The store is a map from user id to row. Whether a query is
  answered or fails for a reason of the store's own (network, policy) is not decided by
  the program: the state carries a schedule \<open>faults\<close>, one entry per query in the order
  the queries are made, and a query whose entry is \<open>True\<close> fails without touching the
  table. The empty schedule is a store that answers every query.

  Columns are nullable in the source (\<open>data?.credits ?? 0\<close>), hence \<open>option\<close>.
  Timestamps are milliseconds since the epoch, as \<open>Date.getTime()\<close> gives them; a stored
  \<open>daily_reset_at\<close> is taken to be a date that parses.
\<close>

datatype db_error = PGRST116 | DbFailure

record user_row =
  email :: string
  is_pro :: "bool option"
  credits :: "int option"
  daily_credits_used :: "int option"
  daily_reset_at :: "int option"
  signup_bonus_given :: "bool option"

record state =
  anonymousCredits :: "string \<rightharpoonup> int"
  users :: "string \<rightharpoonup> user_row"
  prompts :: "(string \<times> string \<times> string option) list"
  faults :: "bool list"

definition tick :: "state \<Rightarrow> bool \<times> state" where
  "tick st = (case faults st of [] \<Rightarrow> (False, st) | f # fs \<Rightarrow> (f, st\<lparr>faults := fs\<rparr>))"

text \<open>\<open>.from('users').select(...).eq('id', uid).single()\<close>\<close>

definition select_single :: "string \<Rightarrow> state \<Rightarrow> (db_error + user_row) \<times> state" where
  "select_single uid st =
     (case tick st of
        (True, st1) \<Rightarrow> (Inl DbFailure, st1)
      | (False, st1) \<Rightarrow>
          (case users st1 uid of
             None \<Rightarrow> (Inl PGRST116, st1)
           | Some r \<Rightarrow> (Inr r, st1)))"

text \<open>\<open>.from('users').update(...).eq('id', uid)\<close>: no row matched is not an error.\<close>

definition update_rows :: "string \<Rightarrow> (user_row \<Rightarrow> user_row) \<Rightarrow> state \<Rightarrow> db_error option \<times> state" where
  "update_rows uid f st =
     (case tick st of
        (True, st1) \<Rightarrow> (Some DbFailure, st1)
      | (False, st1) \<Rightarrow>
          (case users st1 uid of
             None \<Rightarrow> (None, st1)
           | Some r \<Rightarrow> (None, st1\<lparr>users := (users st1)(uid \<mapsto> f r)\<rparr>)))"

text \<open>\<open>.from('users').update(...).eq('id', uid).select(...).single()\<close>: the updated row,
  or \<open>PGRST116\<close> when no row matched.\<close>

definition update_single :: "string \<Rightarrow> (user_row \<Rightarrow> user_row) \<Rightarrow> state \<Rightarrow> (db_error + user_row) \<times> state" where
  "update_single uid f st =
     (case tick st of
        (True, st1) \<Rightarrow> (Inl DbFailure, st1)
      | (False, st1) \<Rightarrow>
          (case users st1 uid of
             None \<Rightarrow> (Inl PGRST116, st1)
           | Some r \<Rightarrow> (Inr (f r), st1\<lparr>users := (users st1)(uid \<mapsto> f r)\<rparr>)))"

section \<open>userHelpers.js\<close>

text \<open>
  A thrown \<open>Error\<close> is a value of \<open>error\<close>; \<open>StorageError op e\<close> is the
  \<open>`${op}: ${error.message}`\<close> the helpers throw on a store error \<open>e\<close>. The guard
  \<open>!authenticatedClient\<close> of every helper is not modelled: the callers pass the client
  they created. Neither is the call \<open>auth.setSession\<close> of \<open>deductFreeUserCredits\<close>, whose
  failure is caught and logged and which touches no table. \<open>nullish v d\<close> is \<open>v ?? d\<close>
  (and \<open>v || d\<close> on numbers with \<open>d = 0\<close>). The field \<open>credits\<close> of the object that
  \<open>getUserCreditInfo\<close> returns is \<open>info_credits\<close> here, the name \<open>credits\<close> being the
  column's.
\<close>

datatype error =
    UserIdRequired
  | AmountNotPositive
  | InsufficientCredits
  | InputTextRequired
  | StorageError string db_error

record credit_info =
  info_credits :: int
  dailyCreditsUsed :: int
  dailyResetAt :: "int option"
  signupBonusGiven :: bool

record deduction =
  remainingCredits :: int
  dailyCreditsRemaining :: int
  creditSource :: string

definition nullish :: "'a option \<Rightarrow> 'a \<Rightarrow> 'a" where
  "nullish v d = (case v of None \<Rightarrow> d | Some x \<Rightarrow> x)"

definition getUserProStatus :: "string \<Rightarrow> state \<Rightarrow> (error + bool) \<times> state" where
  "getUserProStatus userId st =
     (if userId = [] then (Inl UserIdRequired, st)
      else case select_single userId st of
             (Inl PGRST116, st1) \<Rightarrow> (Inr False, st1)
           | (Inl e, st1) \<Rightarrow> (Inl (StorageError ''Failed to get user Pro status'' e), st1)
           | (Inr data, st1) \<Rightarrow> (Inr (is_pro data = Some True), st1))"

definition getUserCreditInfo :: "string \<Rightarrow> state \<Rightarrow> (error + credit_info) \<times> state" where
  "getUserCreditInfo userId st =
     (if userId = [] then (Inl UserIdRequired, st)
      else case select_single userId st of
             (Inl PGRST116, st1) \<Rightarrow>
               (Inr \<lparr>info_credits = 0, dailyCreditsUsed = 0, dailyResetAt = None,
                     signupBonusGiven = False\<rparr>, st1)
           | (Inl e, st1) \<Rightarrow> (Inl (StorageError ''Failed to get user credit info'' e), st1)
           | (Inr data, st1) \<Rightarrow>
               (Inr \<lparr>info_credits = nullish (credits data) 0,
                     dailyCreditsUsed = nullish (daily_credits_used data) 0,
                     dailyResetAt = daily_reset_at data,
                     signupBonusGiven = nullish (signup_bonus_given data) False\<rparr>, st1))"

definition DAY_MS :: int where
  "DAY_MS = 24 * 60 * 60 * 1000"

definition resetDailyCreditsIfNeeded :: "int \<Rightarrow> string \<Rightarrow> state \<Rightarrow> (error + bool) \<times> state" where
  "resetDailyCreditsIfNeeded now userId st =
     (if userId = [] then (Inl UserIdRequired, st)
      else case getUserCreditInfo userId st of
             (Inl e, st1) \<Rightarrow> (Inl e, st1)
           | (Inr creditInfo, st1) \<Rightarrow>
               (if (case dailyResetAt creditInfo of None \<Rightarrow> True | Some resetAt \<Rightarrow> now \<ge> resetAt)
                then
                  (case update_rows userId
                          (\<lambda>r. r\<lparr>daily_credits_used := Some 0,
                                 daily_reset_at := Some (now + DAY_MS)\<rparr>) st1 of
                     (Some e, st2) \<Rightarrow> (Inl (StorageError ''Failed to reset daily credits'' e), st2)
                   | (None, st2) \<Rightarrow> (Inr True, st2))
                else (Inr False, st1)))"

definition DAILY_CREDITS :: int where
  "DAILY_CREDITS = 3"

definition deductFreeUserCredits :: "int \<Rightarrow> string \<Rightarrow> int \<Rightarrow> state \<Rightarrow> (error + deduction) \<times> state" where
  "deductFreeUserCredits now userId amount st =
     (if userId = [] then (Inl UserIdRequired, st)
      else if amount \<le> 0 then (Inl AmountNotPositive, st)
      else case resetDailyCreditsIfNeeded now userId st of
             (Inl e, st1) \<Rightarrow> (Inl e, st1)
           | (Inr wasReset, st1) \<Rightarrow>
               (case getUserCreditInfo userId st1 of
                  (Inl e, st2) \<Rightarrow> (Inl e, st2)
                | (Inr creditInfo, st2) \<Rightarrow>
                    (let dailyCreditsAvailable = DAILY_CREDITS - dailyCreditsUsed creditInfo;
                         bonusCredits = info_credits creditInfo;
                         totalAvailable = dailyCreditsAvailable + bonusCredits
                     in if totalAvailable < amount then (Inl InsufficientCredits, st2)
                        else
                          (let (newDailyCreditsUsed, newBonusCredits, source) =
                                 (if dailyCreditsAvailable \<ge> amount
                                  then (dailyCreditsUsed creditInfo + amount, bonusCredits, ''daily'')
                                  else (DAILY_CREDITS,
                                        bonusCredits - (amount - dailyCreditsAvailable), ''mixed''))
                           in case update_single userId
                                     (\<lambda>r. r\<lparr>daily_credits_used := Some newDailyCreditsUsed,
                                            credits := Some newBonusCredits\<rparr>) st2 of
                                (Inl e, st3) \<Rightarrow>
                                  (Inl (StorageError ''Failed to deduct credits'' e), st3)
                              | (Inr data, st3) \<Rightarrow>
                                  (Inr \<lparr>remainingCredits = newBonusCredits,
                                        dailyCreditsRemaining = DAILY_CREDITS - newDailyCreditsUsed,
                                        creditSource = source\<rparr>, st3)))))"

definition SIGNUP_BONUS :: int where
  "SIGNUP_BONUS = 10"

definition grantSignupBonus :: "string \<Rightarrow> state \<Rightarrow> (error + unit) \<times> state" where
  "grantSignupBonus userId st =
     (if userId = [] then (Inl UserIdRequired, st)
      else case getUserCreditInfo userId st of
             (Inl e, st1) \<Rightarrow> (Inl e, st1)
           | (Inr creditInfo, st1) \<Rightarrow>
               (if signupBonusGiven creditInfo then (Inr (), st1)
                else
                  (let newCredits = info_credits creditInfo + SIGNUP_BONUS
                   in case update_rows userId
                             (\<lambda>r. r\<lparr>credits := Some newCredits,
                                    signup_bonus_given := Some True\<rparr>) st1 of
                        (Some e, st2) \<Rightarrow> (Inl (StorageError ''Failed to grant signup bonus'' e), st2)
                      | (None, st2) \<Rightarrow> (Inr (), st2))))"

section \<open>server.js: the anonymous pool\<close>

definition ANONYMOUS_FREE_CREDITS :: int where
  "ANONYMOUS_FREE_CREDITS = 5"

definition getAnonymousCredits :: "string \<Rightarrow> (string \<rightharpoonup> int) \<Rightarrow> int \<times> (string \<rightharpoonup> int)" where
  "getAnonymousCredits ip m =
     (case m ip of
        None \<Rightarrow> (ANONYMOUS_FREE_CREDITS, m(ip \<mapsto> ANONYMOUS_FREE_CREDITS))
      | Some c \<Rightarrow> (c, m))"

definition deductAnonymousCredits :: "string \<Rightarrow> int \<Rightarrow> (string \<rightharpoonup> int) \<Rightarrow> (error + int) \<times> (string \<rightharpoonup> int)" where
  "deductAnonymousCredits ip amount m =
     (case getAnonymousCredits ip m of
        (current, m1) \<Rightarrow>
          (if current < amount then (Inl InsufficientCredits, m1)
           else (Inr (current - amount), m1(ip \<mapsto> current - amount))))"

section \<open>historyHelpers.js\<close>

definition savePrompt :: "string \<Rightarrow> string \<Rightarrow> string \<Rightarrow> state \<Rightarrow> (error + unit) \<times> state" where
  "savePrompt userId inputText outputText st =
     (if userId = [] then (Inl UserIdRequired, st)
      else if inputText = [] then (Inl InputTextRequired, st)
      else case tick st of
             (True, st1) \<Rightarrow> (Inl (StorageError ''Failed to save prompt'' DbFailure), st1)
           | (False, st1) \<Rightarrow>
               (Inr (), st1\<lparr>prompts := prompts st1 @
                  [(userId, inputText, if outputText = [] then None else Some outputText)]\<rparr>))"

section \<open>server.js: requests, responses and the collaborators\<close>

text \<open>
  A request is \<open>req.body\<close> and the headers the handler reads. \<open>req.body\<close> is what the JSON
  middleware leaves: an object whose fields are JSON values, or nothing at all (\<open>None\<close>;
  which of the two a request without a JSON body gets depends on the version of the web
  framework, which the sources do not fix). A field that is absent is \<open>None\<close>. A JSON
  number is an \<open>int\<close> here (a fraction behaves as a non-zero number in all the handler
  does); \<open>JObject\<close> stands for objects and arrays. Header values are strings. The mode is
  fixed by the route, so the handler's check against \<open>validModes\<close> always passes and has
  no branch here.

  The identity provider (\<open>supabase.auth.getUser\<close>) and the completion call are outside
  the repository and are parameters: \<open>auth_getUser\<close> gives the user id and email for a
  token it accepts; \<open>completion\<close> stands for the call to the model together with the
  clean-up of its answer (lines 943-974 of \<open>server.js\<close>) and gives either the message of
  the error caught at line 975 or the cleaned, non-empty text. \<open>clock\<close> is the value of
  \<open>new Date()\<close>, taken as constant during one request.
\<close>

datatype mode = Improve | Refine | Followup

datatype jsvalue = JNull | JBool bool | JNumber int | JString string | JObject

record json_body =
  body_token :: "jsvalue option"
  original_prompt :: "jsvalue option"
  previous_prompt :: "jsvalue option"

record request =
  req_body :: "json_body option"
  authorization :: "string option"
  x_forwarded_for :: "string option"
  x_real_ip :: "string option"
  connection_remoteAddress :: "string option"
  socket_remoteAddress :: "string option"

record env =
  auth_getUser :: "jsvalue \<Rightarrow> (string \<times> string) option"
  clock :: int
  openai_configured :: bool
  completion :: "mode \<Rightarrow> string \<Rightarrow> string + string"

datatype body =
    ErrorBody string
  | CreditsBody string int
  | DetailsBody string error
  | SuccessBody string int

record response =
  status :: nat
  body :: body

subsection \<open>JavaScript values and strings\<close>

text \<open>
  \<open>truthy\<close> is JavaScript's conversion to a boolean, \<open>js_or\<close> is \<open>||\<close>. A string is its
  UTF-8 bytes. \<open>white_space\<close> lists what \<open>String.prototype.trim\<close> strips, each character
  as its bytes: TAB, LF, VT, FF, CR, SP, U+00A0, U+1680, U+2000 to U+200A, U+2028, U+2029,
  U+202F, U+205F, U+3000 and U+FEFF.
\<close>

definition truthy :: "jsvalue option \<Rightarrow> bool" where
  "truthy v =
     (case v of
        None \<Rightarrow> False
      | Some JNull \<Rightarrow> False
      | Some (JBool b) \<Rightarrow> b
      | Some (JNumber n) \<Rightarrow> n \<noteq> 0
      | Some (JString s) \<Rightarrow> s \<noteq> []
      | Some JObject \<Rightarrow> True)"

definition js_or :: "jsvalue option \<Rightarrow> jsvalue option \<Rightarrow> jsvalue option" where
  "js_or a b = (if truthy a then a else b)"

definition header :: "string option \<Rightarrow> jsvalue option" where
  "header h = map_option JString h"

definition white_space :: "string list" where
  "white_space =
     [[CHR 0x09], [CHR 0x0A], [CHR 0x0B], [CHR 0x0C], [CHR 0x0D], [CHR 0x20],
      [CHR 0xC2, CHR 0xA0], [CHR 0xE1, CHR 0x9A, CHR 0x80],
      [CHR 0xE2, CHR 0x80, CHR 0x80], [CHR 0xE2, CHR 0x80, CHR 0x81],
      [CHR 0xE2, CHR 0x80, CHR 0x82], [CHR 0xE2, CHR 0x80, CHR 0x83],
      [CHR 0xE2, CHR 0x80, CHR 0x84], [CHR 0xE2, CHR 0x80, CHR 0x85],
      [CHR 0xE2, CHR 0x80, CHR 0x86], [CHR 0xE2, CHR 0x80, CHR 0x87],
      [CHR 0xE2, CHR 0x80, CHR 0x88], [CHR 0xE2, CHR 0x80, CHR 0x89],
      [CHR 0xE2, CHR 0x80, CHR 0x8A], [CHR 0xE2, CHR 0x80, CHR 0xA8],
      [CHR 0xE2, CHR 0x80, CHR 0xA9], [CHR 0xE2, CHR 0x80, CHR 0xAF],
      [CHR 0xE2, CHR 0x81, CHR 0x9F], [CHR 0xE3, CHR 0x80, CHR 0x80],
      [CHR 0xEF, CHR 0xBB, CHR 0xBF]]"

text \<open>Strips from the front of \<open>s\<close> as long as one of the sequences \<open>ws\<close> starts it.\<close>

function strip_start :: "string list \<Rightarrow> string \<Rightarrow> string" where
  "strip_start ws s =
     (case find (\<lambda>w. w \<noteq> [] \<and> take (length w) s = w) ws of
        None \<Rightarrow> s
      | Some w \<Rightarrow> strip_start ws (drop (length w) s))"
  by pat_completeness auto
termination
proof (relation "measure (\<lambda>(ws, s). length s)")
  show "wf (measure (\<lambda>(ws, s). length s))" by simp
next
  fix ws :: "string list" and s w :: string
  assume "find (\<lambda>w. w \<noteq> [] \<and> take (length w) s = w) ws = Some w"
  then have n: "w \<noteq> []" and t: "take (length w) s = w"
    by (auto simp: find_Some_iff)
  from n have "0 < length w"
    by simp
  moreover from arg_cong [OF t, of length] have "length w \<le> length s"
    by (simp add: min_def split: if_splits)
  ultimately show "((ws, drop (length w) s), (ws, s)) \<in> measure (\<lambda>(ws, s). length s)"
    by (cases w) simp_all
qed

declare strip_start.simps [simp del]

definition js_trim :: "string \<Rightarrow> string" where
  "js_trim s = rev (strip_start (map rev white_space) (rev (strip_start white_space s)))"

text \<open>\<open>s.replace(pat, '')\<close> with a string pattern: the first occurrence only.\<close>

fun remove_first :: "string \<Rightarrow> string \<Rightarrow> string" where
  "remove_first pat [] = []"
| "remove_first pat (c # cs) =
     (if take (length pat) (c # cs) = pat then drop (length pat) (c # cs)
      else c # remove_first pat cs)"

text \<open>\<open>s.includes(pat)\<close>\<close>

fun js_includes :: "string \<Rightarrow> string \<Rightarrow> bool" where
  "js_includes [] pat = (pat = [])"
| "js_includes (c # cs) pat = (take (length pat) (c # cs) = pat \<or> js_includes cs pat)"

subsection \<open>authHelpers.js\<close>

datatype auth_error = InvalidToken

definition verifyUserFromToken :: "env \<Rightarrow> jsvalue \<Rightarrow> auth_error + string \<times> string" where
  "verifyUserFromToken e token =
     (if \<not> truthy (Some token) then Inl InvalidToken
      else case auth_getUser e token of
             None \<Rightarrow> Inl InvalidToken
           | Some user \<Rightarrow> Inr user)"

subsection \<open>The client identifier\<close>

definition getClientIP :: "request \<Rightarrow> string" where
  "getClientIP req =
     (case js_or (header (map_option (\<lambda>h. js_trim (takeWhile (\<lambda>c. c \<noteq> CHR '','') h))
                                     (x_forwarded_for req)))
            (js_or (header (x_real_ip req))
              (js_or (header (connection_remoteAddress req))
                (js_or (header (socket_remoteAddress req)) (Some (JString ''unknown''))))) of
        Some (JString ip) \<Rightarrow> ip
      | _ \<Rightarrow> ''unknown'')"

section \<open>server.js: \<open>handlePromptImprovement\<close>\<close>

text \<open>
  The handler is one function in the source; it is cut here at its own comment lines
  into the token (line 633), the identity (lines 647-691), the Pro gate (lines 693-710),
  the credits (lines 717-850) and the generation with the reply (lines 852-1000).
  An early \<open>return res.status(...).json(...)\<close> is an \<open>Inl\<close>. The two operands of
  \<open>!original_prompt || !original_prompt.trim()\<close> are tested one after the other, as
  \<open>||\<close> does, and so are the two tests of the outer \<open>catch\<close>.

  Three expressions stand outside every inner \<open>try\<close> and throw a \<open>TypeError\<close> that the
  outer \<open>catch\<close> of lines 1001-1010 turns into a response: \<open>req.body.token\<close> at line 633
  when \<open>req.body\<close> is undefined, and \<open>.trim()\<close> at lines 637 and 931 on a value that is
  truthy and not a string. The messages are those of V8; the older wording of the first,
  \<open>Cannot read property 'token' of undefined\<close>, contains \<open>token\<close> as well.
\<close>

datatype identity = Anonymous | Account string

definition reply :: "nat \<Rightarrow> body \<Rightarrow> response" where
  "reply code b = \<lparr>status = code, body = b\<rparr>"

definition BODY_UNDEFINED :: string where
  "BODY_UNDEFINED = ''Cannot read properties of undefined (reading 'token')''"

definition trimNotFunction :: "string \<Rightarrow> string" where
  "trimNotFunction name = name @ ''.trim is not a function''"

definition outerCatch :: "string \<Rightarrow> response" where
  "outerCatch message =
     (if js_includes message ''token'' then reply 401 (ErrorBody ''Invalid or expired token'')
      else if js_includes message ''Invalid'' then reply 401 (ErrorBody ''Invalid or expired token'')
      else reply 500 (ErrorBody message))"

definition requestToken :: "json_body \<Rightarrow> request \<Rightarrow> jsvalue option" where
  "requestToken b req =
     js_or (body_token b) (header (map_option (remove_first ''Bearer '') (authorization req)))"

definition resolveIdentity :: "env \<Rightarrow> mode \<Rightarrow> jsvalue option \<Rightarrow> response + identity" where
  "resolveIdentity e m token =
     (if m = Followup \<and> \<not> truthy token
      then Inl (reply 401 (ErrorBody ''Authentication required. Please log in.''))
      else if \<not> truthy token then Inr Anonymous
      else case token of
             None \<Rightarrow> Inr Anonymous
           | Some t \<Rightarrow>
               (case verifyUserFromToken e t of
                  Inr (userId, mail) \<Rightarrow> Inr (Account userId)
                | Inl authError \<Rightarrow>
                    (if m = Followup
                     then Inl (reply 401 (ErrorBody ''Invalid or expired token''))
                     else Inr Anonymous)))"

definition requirePro :: "mode \<Rightarrow> identity \<Rightarrow> state \<Rightarrow> response option \<times> state" where
  "requirePro m who st =
     (if m = Followup then
        (case who of
           Anonymous \<Rightarrow>
             (Some (reply 401 (ErrorBody ''Authentication required. Please log in.'')), st)
         | Account userId \<Rightarrow>
             (if userId = []
              then (Some (reply 401 (ErrorBody ''Authentication required. Please log in.'')), st)
              else case getUserProStatus userId st of
                     (Inl proError, st1) \<Rightarrow>
                       (Some (reply 500 (ErrorBody ''Failed to verify Pro status'')), st1)
                   | (Inr isPro, st1) \<Rightarrow>
                       (if \<not> isPro
                        then (Some (reply 403 (ErrorBody
                               ''Follow-up is a Pro feature. Upgrade to Pro to use this feature.'')), st1)
                        else (None, st1))))
      else (None, st))"

definition creditCosts :: "mode \<Rightarrow> int" where
  "creditCosts m = (case m of Improve \<Rightarrow> 1 | Refine \<Rightarrow> 1 | Followup \<Rightarrow> 2)"

definition NO_CREDITS_ANONYMOUS :: string where
  "NO_CREDITS_ANONYMOUS = ''No credits remaining. Sign up to get more credits.''"

definition NO_CREDITS_FREE :: string where
  "NO_CREDITS_FREE = ''No credits remaining. You've used your 3 daily credits. Sign up to get 10 bonus credits or go Pro for unlimited access.''"

definition anonymousReserve :: "string \<Rightarrow> int \<Rightarrow> state \<Rightarrow> (response + int) \<times> state" where
  "anonymousReserve clientIP creditCost st =
     (case getAnonymousCredits clientIP (anonymousCredits st) of
        (currentCredits, pool1) \<Rightarrow>
          (let st1 = st\<lparr>anonymousCredits := pool1\<rparr>
           in if currentCredits \<le> 0
              then (Inl (reply 402 (CreditsBody NO_CREDITS_ANONYMOUS currentCredits)), st1)
              else if currentCredits < creditCost
              then (Inl (reply 402 (CreditsBody NO_CREDITS_ANONYMOUS currentCredits)), st1)
              else case deductAnonymousCredits clientIP creditCost pool1 of
                     (Inr remaining, pool2) \<Rightarrow> (Inr remaining, st1\<lparr>anonymousCredits := pool2\<rparr>)
                   | (Inl deductError, pool2) \<Rightarrow>
                       (if deductError = InsufficientCredits
                        then (Inl (reply 402 (CreditsBody NO_CREDITS_ANONYMOUS currentCredits)),
                              st1\<lparr>anonymousCredits := pool2\<rparr>)
                        else (Inl (reply 500 (DetailsBody ''Failed to process credits'' deductError)),
                              st1\<lparr>anonymousCredits := pool2\<rparr>))))"

definition freeReserve :: "int \<Rightarrow> string \<Rightarrow> int \<Rightarrow> state \<Rightarrow> (response + int) \<times> state" where
  "freeReserve now userId creditCost st =
     (case resetDailyCreditsIfNeeded now userId st of
        (Inl creditError, st1) \<Rightarrow> (Inl (reply 500 (ErrorBody ''Failed to check credits'')), st1)
      | (Inr wasReset, st1) \<Rightarrow>
          (case getUserCreditInfo userId st1 of
             (Inl creditError, st2) \<Rightarrow> (Inl (reply 500 (ErrorBody ''Failed to check credits'')), st2)
           | (Inr creditInfo, st2) \<Rightarrow>
               (let dailyCreditsAvailable = DAILY_CREDITS - dailyCreditsUsed creditInfo;
                    bonusCredits = info_credits creditInfo;
                    totalAvailable = dailyCreditsAvailable + bonusCredits
                in if totalAvailable < creditCost
                   then (Inl (reply 402 (CreditsBody NO_CREDITS_FREE totalAvailable)), st2)
                   else case deductFreeUserCredits now userId creditCost st2 of
                          (Inr result, st3) \<Rightarrow> (Inr (remainingCredits result), st3)
                        | (Inl deductError, st3) \<Rightarrow>
                            (if deductError = InsufficientCredits
                             then (Inl (reply 402 (CreditsBody NO_CREDITS_FREE totalAvailable)), st3)
                             else (Inl (reply 500 (DetailsBody ''Failed to process credits''
                                                    deductError)), st3)))))"

definition accountReserve :: "int \<Rightarrow> mode \<Rightarrow> string \<Rightarrow> int \<Rightarrow> state \<Rightarrow> (response + int) \<times> state" where
  "accountReserve now m userId creditCost st =
     (case getUserProStatus userId st of
        (proResult, st1) \<Rightarrow>
          (let isPro = (case proResult of Inr p \<Rightarrow> p | Inl proError \<Rightarrow> False)
           in if isPro then (Inr (- 1), st1)
              else if m = Improve \<or> m = Refine then freeReserve now userId creditCost st1
              else (Inr (- 1), st1)))"

definition reserveCredits :: "env \<Rightarrow> request \<Rightarrow> mode \<Rightarrow> identity \<Rightarrow> state \<Rightarrow> (response + int) \<times> state" where
  "reserveCredits e req m who st =
     (let creditCost = creditCosts m
      in case who of
           Anonymous \<Rightarrow> anonymousReserve (getClientIP req) creditCost st
         | Account userId \<Rightarrow> accountReserve (clock e) m userId creditCost st)"

definition userMessage :: "mode \<Rightarrow> string \<Rightarrow> jsvalue option \<Rightarrow> string + string" where
  "userMessage m original previous =
     (case m of
        Followup \<Rightarrow>
          (if \<not> truthy previous
           then Inr (''Current user input: '' @ [CHR 0x22] @ js_trim original @ [CHR 0x22])
           else case previous of
                  Some (JString q) \<Rightarrow>
                    (if js_trim q \<noteq> []
                     then Inr (''Previous user message: '' @ [CHR 0x22] @ js_trim q @ [CHR 0x22]
                               @ [CHR 0x0A, CHR 0x0A] @ ''Current user input: '' @ [CHR 0x22]
                               @ js_trim original @ [CHR 0x22])
                     else Inr (''Current user input: '' @ [CHR 0x22] @ js_trim original
                               @ [CHR 0x22]))
                | _ \<Rightarrow> Inl (trimNotFunction ''previous_prompt''))
      | _ \<Rightarrow> Inr (js_trim original))"

definition generateAndReply :: "env \<Rightarrow> string \<Rightarrow> jsvalue option \<Rightarrow> mode \<Rightarrow> identity \<Rightarrow> int \<Rightarrow> state \<Rightarrow> response \<times> state" where
  "generateAndReply e original previous m who remaining st =
     (if \<not> openai_configured e then (reply 500 (ErrorBody ''OpenAI API not configured''), st)
      else case userMessage m original previous of
             Inl message \<Rightarrow> (outerCatch message, st)
           | Inr text \<Rightarrow>
               (case completion e m text of
                  Inl msg \<Rightarrow> (reply 500 (ErrorBody (''OpenAI API error: '' @ msg)), st)
                | Inr improvedPrompt \<Rightarrow>
                    (let st1 = (case who of
                                  Anonymous \<Rightarrow> st
                                | Account userId \<Rightarrow>
                                    (if userId = [] then st
                                     else snd (savePrompt userId (js_trim original)
                                                 improvedPrompt st)))
                     in (reply 200 (SuccessBody improvedPrompt remaining), st1))))"

definition handleParsed :: "env \<Rightarrow> request \<Rightarrow> json_body \<Rightarrow> string \<Rightarrow> mode \<Rightarrow> state \<Rightarrow> response \<times> state" where
  "handleParsed e req b original m st =
     (case resolveIdentity e m (requestToken b req) of
        Inl denial \<Rightarrow> (denial, st)
      | Inr who \<Rightarrow>
          (case requirePro m who st of
             (Some denial, st1) \<Rightarrow> (denial, st1)
           | (None, st1) \<Rightarrow>
               (case reserveCredits e req m who st1 of
                  (Inl denial, st2) \<Rightarrow> (denial, st2)
                | (Inr remaining, st2) \<Rightarrow>
                    generateAndReply e original (previous_prompt b) m who remaining st2)))"

definition handlePromptImprovement :: "env \<Rightarrow> request \<Rightarrow> mode \<Rightarrow> state \<Rightarrow> response \<times> state" where
  "handlePromptImprovement e req m st =
     (case req_body req of
        None \<Rightarrow> (outerCatch BODY_UNDEFINED, st)
      | Some b \<Rightarrow>
          (if \<not> truthy (original_prompt b)
           then (reply 400 (ErrorBody ''original_prompt is required''), st)
           else case original_prompt b of
                  Some (JString original) \<Rightarrow>
                    (if js_trim original = []
                     then (reply 400 (ErrorBody ''original_prompt is required''), st)
                     else handleParsed e req b original m st)
                | _ \<Rightarrow> (outerCatch (trimNotFunction ''original_prompt''), st)))"

section \<open>server.js: the balance shown by \<open>GET /api/me\<close>\<close>

text \<open>Lines 319-351: \<open>credits_remaining\<close> as computed from the row \<open>userData\<close>.\<close>

definition me_credits_remaining :: "int \<Rightarrow> user_row \<Rightarrow> int" where
  "me_credits_remaining now userData =
     (if is_pro userData = Some True then 999999
      else
        (let dailyCreditsUsed' = nullish (daily_credits_used userData) 0;
             dailyCreditsAvailable =
               (if (case daily_reset_at userData of None \<Rightarrow> True | Some t \<Rightarrow> now \<ge> t)
                then DAILY_CREDITS
                else max 0 (DAILY_CREDITS - dailyCreditsUsed'));
             bonusCredits = nullish (credits userData) 0
         in dailyCreditsAvailable + bonusCredits))"

section \<open>Requests in flight together\<close>

text \<open>
  The program runs on one thread: a request runs without interruption up to its next
  \<open>await\<close>, where another request may run. A request in flight is a \<open>thread\<close>: it is
  done, or it has a next segment, which takes the shared state and leaves the rest of the
  request. A schedule says whose segment runs next; \<open>run_two\<close> runs two requests under a
  schedule, and a request that is done lets its turn pass.

  The anonymous check-then-decrement holds no \<open>await\<close> (lines 729-769 of the handler,
  lines 616-624 of \<open>deductAnonymousCredits\<close>): it is one segment. \<open>deductFreeUserCredits\<close>
  awaits every query of the store. It is cut here once, between the read of line 351 with
  the computation that follows it and the update of line 382; the values that live
  across the cut are \<open>pending\<close>. Each of the two segments is a run of consecutive steps of
  one request, so a schedule of these segments is a schedule of the program.
\<close>

record pending =
  pending_dailyCreditsUsed :: int
  pending_bonusCredits :: int
  pending_creditSource :: string

definition deductFreeUserCredits_read :: "int \<Rightarrow> string \<Rightarrow> int \<Rightarrow> state \<Rightarrow> (error + pending) \<times> state" where
  "deductFreeUserCredits_read now userId amount st =
     (if userId = [] then (Inl UserIdRequired, st)
      else if amount \<le> 0 then (Inl AmountNotPositive, st)
      else case resetDailyCreditsIfNeeded now userId st of
             (Inl e, st1) \<Rightarrow> (Inl e, st1)
           | (Inr wasReset, st1) \<Rightarrow>
               (case getUserCreditInfo userId st1 of
                  (Inl e, st2) \<Rightarrow> (Inl e, st2)
                | (Inr creditInfo, st2) \<Rightarrow>
                    (let dailyCreditsAvailable = DAILY_CREDITS - dailyCreditsUsed creditInfo;
                         bonusCredits = info_credits creditInfo;
                         totalAvailable = dailyCreditsAvailable + bonusCredits
                     in if totalAvailable < amount then (Inl InsufficientCredits, st2)
                        else if dailyCreditsAvailable \<ge> amount
                        then (Inr \<lparr>pending_dailyCreditsUsed = dailyCreditsUsed creditInfo + amount,
                                   pending_bonusCredits = bonusCredits,
                                   pending_creditSource = ''daily''\<rparr>, st2)
                        else (Inr \<lparr>pending_dailyCreditsUsed = DAILY_CREDITS,
                                   pending_bonusCredits =
                                     bonusCredits - (amount - dailyCreditsAvailable),
                                   pending_creditSource = ''mixed''\<rparr>, st2))))"

definition deductFreeUserCredits_write :: "string \<Rightarrow> pending \<Rightarrow> state \<Rightarrow> (error + deduction) \<times> state" where
  "deductFreeUserCredits_write userId p st =
     (case update_single userId
             (\<lambda>r. r\<lparr>daily_credits_used := Some (pending_dailyCreditsUsed p),
                    credits := Some (pending_bonusCredits p)\<rparr>) st of
        (Inl e, st3) \<Rightarrow> (Inl (StorageError ''Failed to deduct credits'' e), st3)
      | (Inr data, st3) \<Rightarrow>
          (Inr \<lparr>remainingCredits = pending_bonusCredits p,
                dailyCreditsRemaining = DAILY_CREDITS - pending_dailyCreditsUsed p,
                creditSource = pending_creditSource p\<rparr>, st3))"

datatype 'r thread = Done 'r | More "state \<Rightarrow> 'r thread \<times> state"

definition resume :: "'r thread \<Rightarrow> state \<Rightarrow> 'r thread \<times> state" where
  "resume t st = (case t of Done r \<Rightarrow> (Done r, st) | More segment \<Rightarrow> segment st)"

datatype turn = First | Second

definition step :: "turn \<Rightarrow> 'r thread \<times> 'r thread \<times> state \<Rightarrow> 'r thread \<times> 'r thread \<times> state" where
  "step who c =
     (case c of
        (a, b, st) \<Rightarrow>
          (case who of
             First \<Rightarrow> (case resume a st of (a', st') \<Rightarrow> (a', b, st'))
           | Second \<Rightarrow> (case resume b st of (b', st') \<Rightarrow> (a, b', st'))))"

definition run_two :: "turn list \<Rightarrow> 'r thread \<times> 'r thread \<times> state \<Rightarrow> 'r thread \<times> 'r thread \<times> state" where
  "run_two schedule c = fold step schedule c"

definition reservation :: "string \<Rightarrow> int \<Rightarrow> (error + int) thread" where
  "reservation ip amount =
     More (\<lambda>st. case deductAnonymousCredits ip amount (anonymousCredits st) of
                  (r, pool) \<Rightarrow> (Done r, st\<lparr>anonymousCredits := pool\<rparr>))"

definition anonymousRequest :: "string \<Rightarrow> int \<Rightarrow> (response + int) thread" where
  "anonymousRequest clientIP creditCost =
     More (\<lambda>st. case anonymousReserve clientIP creditCost st of (r, st') \<Rightarrow> (Done r, st'))"

definition deduction :: "int \<Rightarrow> string \<Rightarrow> int \<Rightarrow> (error + deduction) thread" where
  "deduction now userId amount =
     More (\<lambda>st. case deductFreeUserCredits_read now userId amount st of
                  (Inl e, st') \<Rightarrow> (Done (Inl e), st')
                | (Inr p, st') \<Rightarrow>
                    (More (\<lambda>st2. case deductFreeUserCredits_write userId p st2 of
                                   (r, st3) \<Rightarrow> (Done r, st3)), st'))"

section \<open>Vocabulary of the properties\<close>

text \<open>The request has a parsed body and passes the check of line 637: \<open>original_prompt\<close>
  is a string that is not blank. \<open>without_token\<close> is the same request carrying no token:
  neither the \<open>token\<close> field nor the \<open>Authorization\<close> header.\<close>

definition well_formed :: "request \<Rightarrow> bool" where
  "well_formed req \<longleftrightarrow>
     (case req_body req of
        None \<Rightarrow> False
      | Some b \<Rightarrow>
          (case original_prompt b of
             Some (JString original) \<Rightarrow> js_trim original \<noteq> []
           | _ \<Rightarrow> False))"


text \<open>The invariants of an account row, read as \<open>getUserCreditInfo\<close> reads it.\<close>

definition account_invariant :: "user_row \<Rightarrow> bool" where
  "account_invariant r \<longleftrightarrow>
     0 \<le> nullish (credits r) 0 \<and>
     0 \<le> nullish (daily_credits_used r) 0 \<and>
     nullish (daily_credits_used r) 0 \<le> DAILY_CREDITS"

text \<open>The same store with the two balance columns of every account replaced: what an
  operation does on both stores alike, it does without reading a balance.\<close>

definition overwrite_balances :: "(string \<Rightarrow> int option \<times> int option) \<Rightarrow> state \<Rightarrow> state" where
  "overwrite_balances f st =
     st\<lparr>users := (\<lambda>uid. map_option (\<lambda>r. r\<lparr>credits := fst (f uid),
                                                daily_credits_used := snd (f uid)\<rparr>)
                                     (users st uid))\<rparr>"

section \<open>Sample data\<close>

text \<open>An account row with the given daily usage, bonus credits and tier, whose daily
  window ends at time 5000; a row as registration creates it; a state holding one row
  under the id \<open>u1\<close>; an identity provider that knows one token; a request from the
  address \<open>10.0.0.7\<close>.\<close>

definition sample_row :: "int \<Rightarrow> int \<Rightarrow> bool \<Rightarrow> user_row" where
  "sample_row used bonus pro =
     \<lparr>email = ''ada@example.org'', is_pro = Some pro, credits = Some bonus,
      daily_credits_used = Some used, daily_reset_at = Some 5000,
      signup_bonus_given = Some True\<rparr>"

definition fresh_row :: user_row where
  "fresh_row =
     \<lparr>email = ''ada@example.org'', is_pro = Some False, credits = Some 0,
      daily_credits_used = Some 0, daily_reset_at = Some 5000,
      signup_bonus_given = Some False\<rparr>"

definition sample_state :: "user_row \<Rightarrow> state" where
  "sample_state r =
     \<lparr>anonymousCredits = Map.empty, users = [''u1'' \<mapsto> r], prompts = [], faults = []\<rparr>"

definition sample_env :: env where
  "sample_env =
     \<lparr>auth_getUser = (\<lambda>t. if t = JString ''token-u1'' then Some (''u1'', ''ada@example.org'')
                           else None),
      clock = 1000, openai_configured = True,
      completion = (\<lambda>m msg. Inr (''Improved: '' @ msg))\<rparr>"

definition sample_body :: "string option \<Rightarrow> json_body" where
  "sample_body tok =
     \<lparr>body_token = map_option JString tok, original_prompt = Some (JString '' write a poem ''),
      previous_prompt = None\<rparr>"

definition sample_request :: "string option \<Rightarrow> request" where
  "sample_request tok =
     \<lparr>req_body = Some (sample_body tok), authorization = None,
      x_forwarded_for = Some ''10.0.0.7, 10.0.0.1'', x_real_ip = None,
      connection_remoteAddress = None, socket_remoteAddress = None\<rparr>"


section \<open>Basic facts about the store and the helpers\<close>

lemma nullish_simps [simp]: "nullish None d = d" "nullish (Some x) d = x"
  by (simp_all add: nullish_def)

lemma tick_reliable: "faults st = [] \<Longrightarrow> tick st = (False, st)"
  by (simp add: tick_def)

lemma tick_eq: "tick st = (f, st1) \<Longrightarrow> st1 = st\<lparr>faults := tl (faults st)\<rparr>"
  by (auto simp: tick_def split: list.splits)

lemma select_single_eq:
  "select_single uid st = (res, st1) \<Longrightarrow> st1 = st\<lparr>faults := tl (faults st)\<rparr>"
  by (auto simp: select_single_def split: prod.splits bool.splits option.splits dest!: tick_eq)

lemma getUserCreditInfo_eq:
  "getUserCreditInfo uid st = (res, st1) \<Longrightarrow>
     st1 = st\<lparr>faults := (if uid = [] then faults st else tl (faults st))\<rparr>"
  by (auto simp: getUserCreditInfo_def split: if_splits prod.splits sum.splits db_error.splits
           dest!: select_single_eq)

lemma getUserCreditInfo_cases:
  assumes "getUserCreditInfo uid st = (res, st1)"
  shows "st1 = st\<lparr>faults := (if uid = [] then faults st else tl (faults st))\<rparr> \<and>
         (\<forall>info. res = Inr info \<longrightarrow>
            (case users st uid of
               None \<Rightarrow> info = \<lparr>info_credits = 0, dailyCreditsUsed = 0, dailyResetAt = None,
                                signupBonusGiven = False\<rparr>
             | Some r \<Rightarrow> info = \<lparr>info_credits = nullish (credits r) 0,
                                  dailyCreditsUsed = nullish (daily_credits_used r) 0,
                                  dailyResetAt = daily_reset_at r,
                                  signupBonusGiven = nullish (signup_bonus_given r) False\<rparr>))"
  using assms
  by (auto simp: getUserCreditInfo_def select_single_def
           split: if_splits prod.splits sum.splits db_error.splits bool.splits option.splits
           dest!: tick_eq)

lemma update_rows_users:
  "update_rows uid f st = (res, st1) \<Longrightarrow>
     users st1 = users st \<or> (\<exists>r. users st uid = Some r \<and> users st1 = (users st)(uid \<mapsto> f r))"
  by (auto simp: update_rows_def split: prod.splits bool.splits option.splits dest!: tick_eq)

lemma update_single_users:
  "update_single uid f st = (res, st1) \<Longrightarrow>
     users st1 = users st \<or> (\<exists>r. users st uid = Some r \<and> users st1 = (users st)(uid \<mapsto> f r))"
  by (auto simp: update_single_def split: prod.splits bool.splits option.splits dest!: tick_eq)





lemma getUserProStatus_eq:
  "getUserProStatus userId st = (res, st1) \<Longrightarrow>
     st1 = st\<lparr>faults := (if userId = [] then faults st else tl (faults st))\<rparr>"
  by (auto simp: getUserProStatus_def select_single_def
           split: if_splits prod.splits bool.splits option.splits sum.splits db_error.splits
           dest!: tick_eq)

lemma reset_users:
  "resetDailyCreditsIfNeeded now uid st = (res, st1) \<Longrightarrow>
     users st1 = users st \<or>
     (\<exists>r. users st uid = Some r \<and>
          users st1 = (users st)(uid \<mapsto> r\<lparr>daily_credits_used := Some 0,
                                            daily_reset_at := Some (now + DAY_MS)\<rparr>))"
  by (auto simp: resetDailyCreditsIfNeeded_def
           split: if_splits prod.splits sum.splits option.splits
           dest!: getUserCreditInfo_eq update_rows_users)

lemma grant_users:
  assumes "grantSignupBonus uid st = (res, st1)"
  shows "users st1 = users st \<or>
         (\<exists>r. users st uid = Some r \<and> \<not> nullish (signup_bonus_given r) False \<and>
              users st1 = (users st)(uid \<mapsto> r\<lparr>credits := Some (nullish (credits r) 0 + SIGNUP_BONUS),
                                                signup_bonus_given := Some True\<rparr>))"
proof (cases "getUserCreditInfo uid st")
  case (Pair ci sa)
  note c = getUserCreditInfo_cases [OF Pair]
  show ?thesis
  proof (cases ci)
    case (Inl e)
    with Pair assms c show ?thesis
      by (auto simp: grantSignupBonus_def split: if_splits)
  next
    case (Inr info)
    with Pair assms c show ?thesis
      by (auto simp: grantSignupBonus_def Let_def split: if_splits prod.splits option.splits
               dest!: update_rows_users)
  qed
qed

lemmas ledger_defs =
  deductFreeUserCredits_def resetDailyCreditsIfNeeded_def getUserCreditInfo_def
  select_single_def update_rows_def update_single_def DAILY_CREDITS_def

lemma js_trim_Nil: "js_trim [] = []"
  by (simp add: js_trim_def strip_start.simps white_space_def)

lemma js_trim_samples:
  "js_trim '' write a poem '' = ''write a poem''"
  "js_trim ''write a poem'' = ''write a poem''"
  "js_trim ''10.0.0.7'' = ''10.0.0.7''"
  by (simp_all add: js_trim_def white_space_def strip_start.simps)

lemma outerCatch_simps:
  "outerCatch BODY_UNDEFINED = reply 401 (ErrorBody ''Invalid or expired token'')"
  "outerCatch (trimNotFunction ''original_prompt'') =
     reply 500 (ErrorBody ''original_prompt.trim is not a function'')"
  "outerCatch (trimNotFunction ''previous_prompt'') =
     reply 500 (ErrorBody ''previous_prompt.trim is not a function'')"
  by (simp_all add: outerCatch_def BODY_UNDEFINED_def trimNotFunction_def)

lemmas handler_defs =
  handlePromptImprovement_def handleParsed_def resolveIdentity_def requestToken_def
  requirePro_def reserveCredits_def accountReserve_def freeReserve_def anonymousReserve_def
  generateAndReply_def userMessage_def creditCosts_def getClientIP_def
  verifyUserFromToken_def savePrompt_def getUserProStatus_def
  truthy_def js_or_def header_def js_trim_samples reply_def
  getAnonymousCredits_def deductAnonymousCredits_def ANONYMOUS_FREE_CREDITS_def

section \<open>The anonymous pool\<close>



section \<open>The two-source deduction\<close>

text \<open>
  Claim C1. Take an existing account, a positive amount \<open>a\<close> and a store that answers.
  \<open>deductFreeUserCredits\<close> first runs the window reset and then reads the account; let
  \<open>u\<close> and \<open>b\<close> be the daily usage and the bonus credits of that read (\<open>creditInfo\<close> in the
  source). If \<open>(3 - u) + b \<ge> a\<close> the deduction succeeds, and afterwards: when \<open>3 - u\<close>
  covers \<open>a\<close>, the daily usage is \<open>u + a\<close>, the bonus credits are still \<open>b\<close> and the source
  is \<open>daily\<close>; otherwise the daily usage is 3, the bonus credits are
  \<open>b - (a - (3 - u))\<close> and the source is \<open>mixed\<close>. The result reports the bonus
  credits and the unused daily allowance of the account as they then are. With \<open>u = 2\<close>, \<open>b = 5\<close>, \<open>a = 2\<close> this
  is \<open>mixed\<close>, bonus 4, daily usage 3 (the witness).
\<close>

theorem deductFreeUserCredits_draw_order:
  assumes "userId \<noteq> []" and "0 < a" and "faults st = []" and "users st userId \<noteq> None"
    and "resetDailyCreditsIfNeeded now userId st = (Inr wasReset, st1)"
    and "getUserCreditInfo userId st1 = (Inr creditInfo, st2)"
    and "u = dailyCreditsUsed creditInfo" and "b = info_credits creditInfo"
    and "a \<le> (3 - u) + b"
  shows "\<exists>res st' after.
           deductFreeUserCredits now userId a st = (Inr res, st') \<and>
           getUserCreditInfo userId st' = (Inr after, st') \<and>
           remainingCredits res = info_credits after \<and>
           dailyCreditsRemaining res = 3 - dailyCreditsUsed after \<and>
           (if a \<le> 3 - u
            then dailyCreditsUsed after = u + a \<and> info_credits after = b \<and>
                 creditSource res = ''daily''
            else dailyCreditsUsed after = 3 \<and> info_credits after = b - (a - (3 - u)) \<and>
                 creditSource res = ''mixed'')"
  using assms
  by (auto simp: ledger_defs tick_reliable Let_def split: option.splits if_splits)

theorem deductFreeUserCredits_draw_order_witness:
  "(\<exists>res st' after.
      deductFreeUserCredits 1000 ''u1'' 2 (sample_state (sample_row 2 5 False)) = (Inr res, st') \<and>
      getUserCreditInfo ''u1'' st' = (Inr after, st') \<and>
      dailyCreditsUsed after = 3 \<and> info_credits after = 4 \<and> creditSource res = ''mixed'' \<and>
      remainingCredits res = 4 \<and> dailyCreditsRemaining res = 0) \<and>
   (\<exists>res st' after.
      deductFreeUserCredits 1000 ''u1'' 2 (sample_state (sample_row 1 5 False)) = (Inr res, st') \<and>
      getUserCreditInfo ''u1'' st' = (Inr after, st') \<and>
      dailyCreditsUsed after = 3 \<and> info_credits after = 5 \<and> creditSource res = ''daily'' \<and>
      remainingCredits res = 5 \<and> dailyCreditsRemaining res = 0)"
proof -
  let ?s = "\<lambda>u. sample_state (sample_row u 5 False)"
  let ?i = "\<lambda>u. \<lparr>info_credits = 5, dailyCreditsUsed = u, dailyResetAt = Some 5000,
                  signupBonusGiven = True\<rparr>"
  have r: "resetDailyCreditsIfNeeded 1000 ''u1'' (?s u) = (Inr False, ?s u)" for u
    by (simp add: ledger_defs tick_reliable sample_state_def sample_row_def)
  have g: "getUserCreditInfo ''u1'' (?s u) = (Inr (?i u), ?s u)" for u
    by (simp add: ledger_defs tick_reliable sample_state_def sample_row_def)
  have f: "faults (?s u) = []" "users (?s u) ''u1'' \<noteq> None" for u
    by (simp_all add: sample_state_def)
  from deductFreeUserCredits_draw_order [OF _ _ f r g refl refl, of 2 2]
       deductFreeUserCredits_draw_order [OF _ _ f r g refl refl, of 2 1]
  show ?thesis by fastforce
qed

section \<open>The balance that admits an operation\<close>

text \<open>
  Claim C2. The handler and \<open>deductFreeUserCredits\<close> admit an operation on
  \<open>(3 - dailyCreditsUsed) + credits\<close>, with no clamp at 0, while \<open>GET /api/me\<close> shows
  \<open>max 0 (3 - dailyCreditsUsed) + credits\<close>. On a row with daily usage 5 and one bonus
  credit inside its window, \<open>/api/me\<close> shows 1 credit and an improve request is denied
  with \<open>creditsRemaining = -1\<close>; with ten bonus credits the request is admitted and
  takes 3 bonus credits for a cost of 1.
\<close>

theorem admission_balance_not_clamped:
  "me_credits_remaining 1000 (sample_row 5 1 False) = 1 \<and>
   max 0 (DAILY_CREDITS - 5) + 1 = (1::int) \<and>
   fst (handlePromptImprovement sample_env (sample_request (Some ''token-u1'')) Improve
          (sample_state (sample_row 5 1 False)))
     = reply 402 (CreditsBody NO_CREDITS_FREE (- 1)) \<and>
   fst (handlePromptImprovement sample_env (sample_request (Some ''token-u1'')) Improve
          (sample_state (sample_row 5 10 False)))
     = reply 200 (SuccessBody ''Improved: write a poem'' 7) \<and>
   users (snd (handlePromptImprovement sample_env (sample_request (Some ''token-u1'')) Improve
          (sample_state (sample_row 5 10 False)))) ''u1''
     = Some (sample_row 3 7 False)"
  by (simp add: handler_defs ledger_defs tick_reliable sample_env_def sample_request_def
        sample_body_def sample_state_def sample_row_def me_credits_remaining_def Let_def)

section \<open>The signup bonus\<close>

text \<open>
  Claim C6. For an existing account and a store that answers, \<open>grantSignupBonus\<close>
  succeeds, and a second call after it changes nothing. If the first call reads the flag
  as set it changes nothing either; otherwise it adds 10 to the bonus credits and sets
  the flag, and changes no other column and no other account. In both cases the flag
  reads as set afterwards.
\<close>

theorem grantSignupBonus_idempotent:
  assumes "userId \<noteq> []" and "faults st = []" and "users st userId = Some r"
  shows "\<exists>st1 after.
           grantSignupBonus userId st = (Inr (), st1) \<and>
           grantSignupBonus userId st1 = (Inr (), st1) \<and>
           getUserCreditInfo userId st1 = (Inr after, st1) \<and>
           signupBonusGiven after \<and>
           (if nullish (signup_bonus_given r) False
            then st1 = st
            else info_credits after = nullish (credits r) 0 + 10 \<and>
                 st1 = st\<lparr>users := (users st)(userId \<mapsto>
                          r\<lparr>credits := Some (nullish (credits r) 0 + 10),
                            signup_bonus_given := Some True\<rparr>)\<rparr>)"
  using assms
  by (auto simp: grantSignupBonus_def getUserCreditInfo_def select_single_def update_rows_def
        tick_reliable SIGNUP_BONUS_def Let_def)

theorem grantSignupBonus_idempotent_witness:
  "(\<exists>st1 after.
      grantSignupBonus ''u1'' (sample_state fresh_row) = (Inr (), st1) \<and>
      grantSignupBonus ''u1'' st1 = (Inr (), st1) \<and>
      getUserCreditInfo ''u1'' st1 = (Inr after, st1) \<and>
      signupBonusGiven after \<and> info_credits after = 10) \<and>
   (\<exists>after.
      grantSignupBonus ''u1'' (sample_state (sample_row 0 10 False)) =
        (Inr (), sample_state (sample_row 0 10 False)) \<and>
      getUserCreditInfo ''u1'' (sample_state (sample_row 0 10 False)) =
        (Inr after, sample_state (sample_row 0 10 False)) \<and>
      signupBonusGiven after)"
proof -
  have a: "faults (sample_state x) = []" "users (sample_state x) ''u1'' = Some x" for x
    by (simp_all add: sample_state_def)
  from grantSignupBonus_idempotent
         [where userId = "''u1''" and st = "sample_state fresh_row" and r = fresh_row]
       grantSignupBonus_idempotent
         [where userId = "''u1''" and st = "sample_state (sample_row 0 10 False)"
            and r = "sample_row 0 10 False"]
  show ?thesis
    by (auto simp: a fresh_row_def sample_row_def)
qed

section \<open>The account invariants\<close>

lemma reset_invariant:
  assumes "resetDailyCreditsIfNeeded now uid st = (res, st1)"
    and "users st k = Some r" and "account_invariant r"
  shows "\<exists>r'. users st1 k = Some r' \<and> account_invariant r'"
  using reset_users [OF assms(1)] assms(2,3)
  by (auto simp: account_invariant_def DAILY_CREDITS_def)

lemma grant_invariant:
  assumes "grantSignupBonus uid st = (res, st1)"
    and "users st k = Some r" and "account_invariant r"
  shows "\<exists>r'. users st1 k = Some r' \<and> account_invariant r'"
  using grant_users [OF assms(1)] assms(2,3)
  by (auto simp: account_invariant_def SIGNUP_BONUS_def)

lemma deduct_invariant:
  assumes d: "deductFreeUserCredits now uid a st = (res, st')"
    and k: "users st k = Some r" and inv: "account_invariant r"
  shows "\<exists>r'. users st' k = Some r' \<and> account_invariant r'"
proof (cases "uid = [] \<or> a \<le> 0")
  case True
  with d have "st' = st" by (auto simp: deductFreeUserCredits_def split: if_splits)
  with k inv show ?thesis by simp
next
  case False
  obtain res1 st1 where r: "resetDailyCreditsIfNeeded now uid st = (res1, st1)"
    by (cases "resetDailyCreditsIfNeeded now uid st")
  from reset_invariant [OF r k inv]
  obtain r1 where k1: "users st1 k = Some r1" and inv1: "account_invariant r1" by blast
  obtain res2 st2 where g: "getUserCreditInfo uid st1 = (res2, st2)"
    by (cases "getUserCreditInfo uid st1")
  note c = getUserCreditInfo_cases [OF g]
  show ?thesis
  proof (cases res1)
    case (Inl e)
    with d r False have "st' = st1" by (simp add: deductFreeUserCredits_def)
    with k1 inv1 show ?thesis by simp
  next
    case ok1: (Inr wasReset)
    show ?thesis
    proof (cases res2)
      case (Inl e)
      with d r g ok1 False have "st' = st2" by (simp add: deductFreeUserCredits_def)
      with c k1 inv1 show ?thesis by simp
    next
      case ok2: (Inr info)
      show ?thesis
      proof (cases "DAILY_CREDITS - dailyCreditsUsed info + info_credits info < a")
        case True
        with d r g ok1 ok2 False have "st' = st2"
          by (simp add: deductFreeUserCredits_def Let_def)
        with c k1 inv1 show ?thesis by simp
      next
        case enough: False
        let ?f = "\<lambda>x::user_row.
                    if a \<le> DAILY_CREDITS - dailyCreditsUsed info
                    then x\<lparr>daily_credits_used := Some (dailyCreditsUsed info + a),
                           credits := Some (info_credits info)\<rparr>
                    else x\<lparr>daily_credits_used := Some DAILY_CREDITS,
                           credits := Some (info_credits info -
                                            (a - (DAILY_CREDITS - dailyCreditsUsed info)))\<rparr>"
        obtain res3 where u: "update_single uid ?f st2 = (res3, st')"
          using d r g ok1 ok2 False enough
          by (cases "a \<le> DAILY_CREDITS - dailyCreditsUsed info")
             (auto simp: deductFreeUserCredits_def Let_def split: prod.splits sum.splits)
        from update_single_users [OF u]
        show ?thesis
        proof
          assume "users st' = users st2"
          with c k1 inv1 show ?thesis by simp
        next
          assume "\<exists>x. users st2 uid = Some x \<and> users st' = (users st2)(uid \<mapsto> ?f x)"
          then obtain x where x: "users st2 uid = Some x"
            and st': "users st' = (users st2)(uid \<mapsto> ?f x)" by blast
          show ?thesis
          proof (cases "k = uid")
            case False
            with st' c k1 inv1 show ?thesis by simp
          next
            case True
            with x c k1 have "x = r1" by simp
            with c ok2 x have
              "info_credits info = nullish (credits r1) 0"
              "dailyCreditsUsed info = nullish (daily_credits_used r1) 0"
              by auto
            with inv1 enough \<open>\<not> (uid = [] \<or> a \<le> 0)\<close> have "account_invariant (?f x)"
              by (auto simp: account_invariant_def DAILY_CREDITS_def)
            with st' True show ?thesis by simp
          qed
        qed
      qed
    qed
  qed
qed

text \<open>
  Claim C9. If an account row satisfies \<open>credits \<ge> 0\<close> and
  \<open>0 \<le> daily_credits_used \<le> 3\<close>, then the row stored for that account after a deduction,
  after a window reset and after a signup-bonus grant (each for any account, at any time,
  for any amount, whatever it returns and whichever queries fail) satisfies them too.
\<close>

theorem ledger_operations_preserve_invariants:
  assumes "users st k = Some r" and "account_invariant r"
  shows "(\<exists>r'. users (snd (deductFreeUserCredits now userId a st)) k = Some r' \<and>
               account_invariant r') \<and>
         (\<exists>r'. users (snd (resetDailyCreditsIfNeeded now userId st)) k = Some r' \<and>
               account_invariant r') \<and>
         (\<exists>r'. users (snd (grantSignupBonus userId st)) k = Some r' \<and> account_invariant r')"
  using deduct_invariant [OF prod.collapse [symmetric] assms]
        reset_invariant [OF prod.collapse [symmetric] assms]
        grant_invariant [OF prod.collapse [symmetric] assms]
  by blast

theorem ledger_operations_preserve_invariants_witness:
  "account_invariant (sample_row 2 5 False) \<and>
   (\<exists>r'. users (snd (deductFreeUserCredits 1000 ''u1'' 2 (sample_state (sample_row 2 5 False))))
            ''u1'' = Some r' \<and> account_invariant r') \<and>
   (\<exists>r'. users (snd (resetDailyCreditsIfNeeded 9000 ''u1'' (sample_state (sample_row 2 5 False))))
            ''u1'' = Some r' \<and> account_invariant r') \<and>
   (\<exists>r'. users (snd (grantSignupBonus ''u1'' (sample_state (sample_row 2 5 False))))
            ''u1'' = Some r' \<and> account_invariant r')"
proof -
  have u: "users (sample_state (sample_row 2 5 False)) ''u1'' = Some (sample_row 2 5 False)"
    by (simp add: sample_state_def)
  have i: "account_invariant (sample_row 2 5 False)"
    by (simp add: account_invariant_def sample_row_def DAILY_CREDITS_def)
  from ledger_operations_preserve_invariants [OF u i, of 1000 "''u1''" 2]
       ledger_operations_preserve_invariants [OF u i, of 9000 "''u1''" 2] i
  show ?thesis by simp
qed

section \<open>The stages of the handler\<close>

lemma overwrite_balances_simps [simp]:
  "faults (overwrite_balances f st) = faults st"
  "anonymousCredits (overwrite_balances f st) = anonymousCredits st"
  "prompts (overwrite_balances f st) = prompts st"
  "(overwrite_balances f st)\<lparr>faults := fs\<rparr> = overwrite_balances f (st\<lparr>faults := fs\<rparr>)"
  "(overwrite_balances f st)\<lparr>prompts := ps\<rparr> = overwrite_balances f (st\<lparr>prompts := ps\<rparr>)"
  by (simp_all add: overwrite_balances_def)

lemma tick_overwrite:
  "tick (overwrite_balances f st) = apsnd (overwrite_balances f) (tick st)"
  by (simp add: tick_def overwrite_balances_def split: list.splits)

lemma getUserProStatus_overwrite:
  "getUserProStatus userId (overwrite_balances f st) =
     apsnd (overwrite_balances f) (getUserProStatus userId st)"
proof (cases "tick st")
  case (Pair b s)
  have "users (overwrite_balances f s) userId =
          map_option (\<lambda>r. r\<lparr>credits := fst (f userId), daily_credits_used := snd (f userId)\<rparr>)
                     (users s userId)"
    by (simp add: overwrite_balances_def)
  with Pair show ?thesis
    by (cases "users s userId")
       (auto simp: getUserProStatus_def select_single_def tick_overwrite split: bool.splits)
qed



lemma requirePro_overwrite:
  "requirePro m who (overwrite_balances f st) = apsnd (overwrite_balances f) (requirePro m who st)"
  by (cases "getUserProStatus (case who of Account u \<Rightarrow> u | _ \<Rightarrow> []) st")
     (auto simp: requirePro_def getUserProStatus_overwrite split: identity.splits sum.splits)

lemma accountReserve_followup:
  "accountReserve now Followup userId c st =
     (Inr (- 1), st\<lparr>faults := (if userId = [] then faults st else tl (faults st))\<rparr>)"
  by (cases "getUserProStatus userId st")
     (auto simp: accountReserve_def Let_def dest!: getUserProStatus_eq)

lemma savePrompt_eq:
  "savePrompt u i out st = (res, st1) \<Longrightarrow>
     users st1 = users st \<and> anonymousCredits st1 = anonymousCredits st"
  by (auto simp: savePrompt_def split: if_splits prod.splits bool.splits dest!: tick_eq)

lemma savePrompt_overwrite:
  "savePrompt u i out (overwrite_balances f st) = apsnd (overwrite_balances f) (savePrompt u i out st)"
  by (cases "tick st")
     (auto simp: savePrompt_def tick_overwrite split: bool.splits)

lemma userMessage_Inl:
  "userMessage m original previous = Inl message \<Longrightarrow>
     message = trimNotFunction ''previous_prompt''"
  by (auto simp: userMessage_def split: mode.splits if_splits option.splits jsvalue.splits)

lemma generateAndReply_frame:
  assumes "generateAndReply e original previous m who n st = (resp, st1)"
  shows "users st1 = users st \<and> anonymousCredits st1 = anonymousCredits st \<and>
         (status resp = 200 \<or> status resp = 500) \<and>
         (status resp = 200 \<longrightarrow> (\<exists>out. body resp = SuccessBody out n)) \<and>
         (\<forall>out k. body resp = SuccessBody out k \<longrightarrow> k = n)"
proof -
  have s: "users (snd (savePrompt u i out st)) = users st \<and>
           anonymousCredits (snd (savePrompt u i out st)) = anonymousCredits st" for u i out
    using savePrompt_eq [OF prod.collapse [symmetric]] by blast
  show ?thesis
  proof (cases "userMessage m original previous")
    case (Inl message)
    with userMessage_Inl [OF Inl] assms show ?thesis
      by (auto simp: generateAndReply_def outerCatch_simps reply_def split: if_splits)
  next
    case (Inr content)
    with assms show ?thesis
      by (auto simp: generateAndReply_def reply_def Let_def s
               split: if_splits sum.splits identity.splits)
  qed
qed

lemma generateAndReply_overwrite:
  "generateAndReply e original previous m who n (overwrite_balances f st) =
     apsnd (overwrite_balances f) (generateAndReply e original previous m who n st)"
  by (auto simp: generateAndReply_def Let_def savePrompt_overwrite
           split: sum.splits identity.splits)

text \<open>The three ways through the head of the handler: \<open>req.body\<close> is undefined; the
  prompt is refused; the request goes on to \<open>handleParsed\<close>.\<close>

lemma handle_unparsed:
  "req_body req = None \<Longrightarrow>
     handlePromptImprovement e req m st = (reply 401 (ErrorBody ''Invalid or expired token''), st)"
  by (simp add: handlePromptImprovement_def outerCatch_simps)

lemma handle_malformed:
  assumes "req_body req = Some b" and "\<not> well_formed req"
  shows "handlePromptImprovement e req m st =
           (reply 400 (ErrorBody ''original_prompt is required''), st) \<or>
         handlePromptImprovement e req m st =
           (reply 500 (ErrorBody ''original_prompt.trim is not a function''), st)"
  using assms
  by (auto simp: handlePromptImprovement_def well_formed_def outerCatch_simps
           split: option.splits jsvalue.splits)

lemma handle_well_formed:
  assumes "well_formed req"
  shows "\<exists>b original. req_body req = Some b \<and> original_prompt b = Some (JString original) \<and>
           handlePromptImprovement e req m st = handleParsed e req b original m st"
proof -
  from assms obtain b original where b: "req_body req = Some b"
    and o: "original_prompt b = Some (JString original)" and t: "js_trim original \<noteq> []"
    by (auto simp: well_formed_def split: option.splits jsvalue.splits)
  from t have "original \<noteq> []"
    using js_trim_Nil by auto
  with b o t show ?thesis
    by (simp add: handlePromptImprovement_def truthy_def)
qed

lemma resolveIdentity_followup:
  "resolveIdentity e Followup token = Inr who \<Longrightarrow>
     \<exists>t userId mail. token = Some t \<and> verifyUserFromToken e t = Inr (userId, mail) \<and>
       who = Account userId"
  by (auto simp: resolveIdentity_def truthy_def split: option.splits if_splits sum.splits)

lemma handleParsed_followup_overwrite:
  "handleParsed e req b original Followup (overwrite_balances f st) =
     apsnd (overwrite_balances f) (handleParsed e req b original Followup st)"
proof (cases "resolveIdentity e Followup (requestToken b req)")
  case (Inl denial)
  then show ?thesis
    by (simp add: handleParsed_def)
next
  case (Inr who)
  from resolveIdentity_followup [OF Inr] obtain userId where who: "who = Account userId" by blast
  obtain r1 s1 where p: "requirePro Followup who st = (r1, s1)"
    by (cases "requirePro Followup who st")
  show ?thesis
    using Inr p who
    by (cases r1)
       (simp_all add: handleParsed_def requirePro_overwrite reserveCredits_def
          accountReserve_followup generateAndReply_overwrite)
qed

lemma handle_followup_overwrite:
  "handlePromptImprovement e req Followup (overwrite_balances f st) =
     apsnd (overwrite_balances f) (handlePromptImprovement e req Followup st)"
  by (simp add: handlePromptImprovement_def handleParsed_followup_overwrite
           split: option.splits jsvalue.splits)

lemma handleParsed_followup_denials:
  assumes "handleParsed e req b original Followup st = (resp, st')"
  shows "(status resp = 401 \<longrightarrow> st' = st) \<and>
         (status resp = 403 \<longrightarrow> st' = st\<lparr>faults := tl (faults st)\<rparr>)"
  using assms
  by (auto simp: handleParsed_def resolveIdentity_def requirePro_def reply_def
        reserveCredits_def accountReserve_followup
        split: if_splits sum.splits option.splits prod.splits identity.splits
        dest!: generateAndReply_frame getUserProStatus_eq)









section \<open>Follow-up requests\<close>

text \<open>
  Claim C5. Take a follow-up request and its outcome. If the status is 401 the state is
  unchanged, and no query was made. If the status is 403 the only query made is the one
  for the tier, and the anonymous pool, every account row and the prompt log are unchanged.
  The outcome is the same whatever the balance columns of the accounts hold. A request
  that passes the prompt check is answered 401 when it carries no token or a token that
  fails verification, and 403 when its token is verified and the tier query answers
  that the account is not Pro.
\<close>

theorem followup_denials_precede_balance:
  assumes "handlePromptImprovement e req Followup st = (resp, st')"
  shows "(status resp = 401 \<longrightarrow> st' = st) \<and>
         (status resp = 403 \<longrightarrow> st' = st\<lparr>faults := tl (faults st)\<rparr>) \<and>
         (\<forall>f. handlePromptImprovement e req Followup (overwrite_balances f st) =
                (resp, overwrite_balances f st')) \<and>
         (\<forall>b. well_formed req \<and> req_body req = Some b \<and> \<not> truthy (requestToken b req)
              \<longrightarrow> status resp = 401) \<and>
         (\<forall>b t. well_formed req \<and> req_body req = Some b \<and> requestToken b req = Some t \<and>
              verifyUserFromToken e t = Inl InvalidToken \<longrightarrow> status resp = 401) \<and>
         (\<forall>b t userId mail s1.
              well_formed req \<and> req_body req = Some b \<and> requestToken b req = Some t \<and>
              verifyUserFromToken e t = Inr (userId, mail) \<and>
              getUserProStatus userId st = (Inr False, s1) \<longrightarrow> status resp = 403)"
proof -
  have ow: "\<forall>f. handlePromptImprovement e req Followup (overwrite_balances f st) =
                (resp, overwrite_balances f st')"
    by (simp add: handle_followup_overwrite assms)
  have den: "(status resp = 401 \<longrightarrow> st' = st) \<and>
             (status resp = 403 \<longrightarrow> st' = st\<lparr>faults := tl (faults st)\<rparr>)"
  proof (cases "req_body req")
    case None
    with assms show ?thesis
      by (auto simp: handle_unparsed reply_def)
  next
    case (Some b)
    show ?thesis
    proof (cases "well_formed req")
      case False
      from handle_malformed [OF Some False, of e Followup st] assms show ?thesis
        by (auto simp: reply_def)
    next
      case True
      from handle_well_formed [OF True, of e Followup st] assms
        handleParsed_followup_denials
      show ?thesis
        by metis
    qed
  qed
  {
    fix b assume wf: "well_formed req" and b: "req_body req = Some b"
    from handle_well_formed [OF wf, of e Followup st] b assms obtain original
      where h: "handleParsed e req b original Followup st = (resp, st')"
      by auto
    have none: "\<not> truthy (requestToken b req) \<longrightarrow> status resp = 401"
      using h by (auto simp: handleParsed_def resolveIdentity_def reply_def)
    have bad: "\<forall>t. requestToken b req = Some t \<and>
                 verifyUserFromToken e t = Inl InvalidToken \<longrightarrow> status resp = 401"
      using h by (auto simp: handleParsed_def resolveIdentity_def reply_def split: if_splits)
    have free: "\<forall>t userId mail s1. requestToken b req = Some t \<and>
                 verifyUserFromToken e t = Inr (userId, mail) \<and>
                 getUserProStatus userId st = (Inr False, s1) \<longrightarrow> status resp = 403"
      using h
      by (auto simp: handleParsed_def resolveIdentity_def reply_def requirePro_def truthy_def
            verifyUserFromToken_def getUserProStatus_def split: if_splits)
    note none bad free
  }
  with ow den show ?thesis by blast
qed

theorem followup_denials_precede_balance_witness:
  "status (fst (handlePromptImprovement sample_env (sample_request None) Followup
                  (sample_state (sample_row 0 5 False)))) = 401 \<and>
   snd (handlePromptImprovement sample_env (sample_request None) Followup
          (sample_state (sample_row 0 5 False))) = sample_state (sample_row 0 5 False) \<and>
   status (fst (handlePromptImprovement sample_env (sample_request (Some ''stale'')) Followup
                  (sample_state (sample_row 0 5 False)))) = 401 \<and>
   snd (handlePromptImprovement sample_env (sample_request (Some ''stale'')) Followup
          (sample_state (sample_row 0 5 False))) = sample_state (sample_row 0 5 False) \<and>
   status (fst (handlePromptImprovement sample_env (sample_request (Some ''token-u1'')) Followup
                  (sample_state (sample_row 0 5 False)))) = 403 \<and>
   snd (handlePromptImprovement sample_env (sample_request (Some ''token-u1'')) Followup
          (sample_state (sample_row 0 5 False))) = sample_state (sample_row 0 5 False) \<and>
   handlePromptImprovement sample_env (sample_request (Some ''token-u1'')) Followup
     (overwrite_balances (\<lambda>uid. (Some 40, Some 1)) (sample_state (sample_row 0 5 False))) =
   apsnd (overwrite_balances (\<lambda>uid. (Some 40, Some 1)))
     (handlePromptImprovement sample_env (sample_request (Some ''token-u1'')) Followup
        (sample_state (sample_row 0 5 False)))"
proof -
  let ?st = "sample_state (sample_row 0 5 False)"
  have wf: "well_formed (sample_request tok)" for tok
    by (simp add: well_formed_def sample_request_def sample_body_def js_trim_samples)
  have b: "req_body (sample_request tok) = Some (sample_body tok)" for tok
    by (simp add: sample_request_def)
  have tok: "\<not> truthy (requestToken (sample_body None) (sample_request None))"
    "requestToken (sample_body (Some ''stale'')) (sample_request (Some ''stale'')) =
       Some (JString ''stale'')"
    "requestToken (sample_body (Some ''token-u1'')) (sample_request (Some ''token-u1'')) =
       Some (JString ''token-u1'')"
    by (simp_all add: requestToken_def sample_request_def sample_body_def js_or_def truthy_def
          header_def)
  have bad: "verifyUserFromToken sample_env (JString ''stale'') = Inl InvalidToken"
    by (simp add: verifyUserFromToken_def sample_env_def truthy_def)
  have good: "verifyUserFromToken sample_env (JString ''token-u1'') =
                Inr (''u1'', ''ada@example.org'')"
    by (simp add: verifyUserFromToken_def sample_env_def truthy_def)
  have pro: "getUserProStatus ''u1'' ?st = (Inr False, ?st)"
    by (simp add: getUserProStatus_def select_single_def tick_reliable sample_state_def
          sample_row_def)
  have same: "?st\<lparr>faults := tl (faults ?st)\<rparr> = ?st"
    by (simp add: sample_state_def)
  note none = followup_denials_precede_balance
         [OF prod.collapse [symmetric], of sample_env "sample_request None" ?st]
  note stale = followup_denials_precede_balance
         [OF prod.collapse [symmetric], of sample_env "sample_request (Some ''stale'')" ?st]
  note free = followup_denials_precede_balance
         [OF prod.collapse [symmetric], of sample_env "sample_request (Some ''token-u1'')" ?st]
  have n1: "status (fst (handlePromptImprovement sample_env (sample_request None) Followup ?st))
              = 401"
    using none wf b tok(1) by blast
  have n2: "snd (handlePromptImprovement sample_env (sample_request None) Followup ?st) = ?st"
    using none n1 by blast
  have s1: "status (fst (handlePromptImprovement sample_env (sample_request (Some ''stale''))
                           Followup ?st)) = 401"
    using stale wf b tok(2) bad by blast
  have s2: "snd (handlePromptImprovement sample_env (sample_request (Some ''stale''))
                   Followup ?st) = ?st"
    using stale s1 by blast
  have f1: "status (fst (handlePromptImprovement sample_env (sample_request (Some ''token-u1''))
                           Followup ?st)) = 403"
    using free wf b tok(3) good pro by blast
  have f2: "snd (handlePromptImprovement sample_env (sample_request (Some ''token-u1''))
                   Followup ?st) = ?st"
    using free f1 same by simp
  have f3: "handlePromptImprovement sample_env (sample_request (Some ''token-u1'')) Followup
              (overwrite_balances (\<lambda>uid. (Some 40, Some 1)) ?st) =
            apsnd (overwrite_balances (\<lambda>uid. (Some 40, Some 1)))
              (handlePromptImprovement sample_env (sample_request (Some ''token-u1'')) Followup ?st)"
    using free by (simp add: apsnd_def map_prod_def split_beta)
  from n1 n2 s1 s2 f1 f2 f3 show ?thesis
    by blast
qed

text \<open>
  Claim C7. Take a follow-up request that passes the prompt check and carries a verified
  token of an account that the tier query reports as Pro. The handler goes on to the
  generation with the remaining value \<open>-1\<close>, having changed no account row and no entry
  of the anonymous pool; the whole request changes none of them; its outcome is the same
  whatever the balance columns of the accounts hold; and a success reports \<open>-1\<close>.
\<close>

theorem followup_pro_bypasses_balance:
  assumes "well_formed req" and "req_body req = Some b" and "requestToken b req = Some t"
    and "verifyUserFromToken e t = Inr (userId, mail)"
    and "getUserProStatus userId st = (Inr True, st1)"
  shows "(\<exists>sa original.
            original_prompt b = Some (JString original) \<and>
            handlePromptImprovement e req Followup st =
              generateAndReply e original (previous_prompt b) Followup (Account userId) (- 1) sa \<and>
            users sa = users st \<and> anonymousCredits sa = anonymousCredits st) \<and>
         users (snd (handlePromptImprovement e req Followup st)) = users st \<and>
         anonymousCredits (snd (handlePromptImprovement e req Followup st)) = anonymousCredits st \<and>
         (\<forall>f. handlePromptImprovement e req Followup (overwrite_balances f st) =
                apsnd (overwrite_balances f) (handlePromptImprovement e req Followup st)) \<and>
         (\<forall>out n. body (fst (handlePromptImprovement e req Followup st)) = SuccessBody out n
                  \<longrightarrow> n = - 1)"
proof -
  from assms(4) have t: "truthy (Some t)"
    by (auto simp: verifyUserFromToken_def split: if_splits)
  from assms(5) have u: "userId \<noteq> []"
    by (auto simp: getUserProStatus_def)
  let ?sa = "st1\<lparr>faults := tl (faults st1)\<rparr>"
  have st1: "users st1 = users st" "anonymousCredits st1 = anonymousCredits st"
    using getUserProStatus_eq [OF assms(5)] by simp_all
  from handle_well_formed [OF assms(1), of e Followup st] assms(2) obtain original
    where o: "original_prompt b = Some (JString original)"
      and hp: "handlePromptImprovement e req Followup st =
                 handleParsed e req b original Followup st"
    by auto
  have h: "handlePromptImprovement e req Followup st =
             generateAndReply e original (previous_prompt b) Followup (Account userId) (- 1) ?sa"
    using assms t u
    by (simp add: hp handleParsed_def resolveIdentity_def
          requirePro_def reserveCredits_def accountReserve_followup)
  obtain resp st' where
    g: "generateAndReply e original (previous_prompt b) Followup (Account userId) (- 1) ?sa
          = (resp, st')"
    by (cases "generateAndReply e original (previous_prompt b) Followup (Account userId) (- 1) ?sa")
  from generateAndReply_frame [OF g] h g st1 o handle_followup_overwrite [of e req _ st]
  show ?thesis
    by (intro conjI exI [of _ ?sa] exI [of _ original]) simp_all
qed

theorem followup_pro_bypasses_balance_witness:
  "users (snd (handlePromptImprovement sample_env (sample_request (Some ''token-u1'')) Followup
                 (sample_state (sample_row 3 0 True)))) = users (sample_state (sample_row 3 0 True)) \<and>
   anonymousCredits (snd (handlePromptImprovement sample_env (sample_request (Some ''token-u1''))
                            Followup (sample_state (sample_row 3 0 True)))) = Map.empty \<and>
   fst (handlePromptImprovement sample_env (sample_request (Some ''token-u1'')) Followup
          (sample_state (sample_row 3 0 True))) =
     reply 200 (SuccessBody (''Improved: Current user input: '' @ [CHR 0x22] @ ''write a poem''
                              @ [CHR 0x22]) (- 1)) \<and>
   handlePromptImprovement sample_env (sample_request (Some ''token-u1'')) Followup
     (overwrite_balances (\<lambda>uid. (Some 40, Some 1)) (sample_state (sample_row 3 0 True))) =
   apsnd (overwrite_balances (\<lambda>uid. (Some 40, Some 1)))
     (handlePromptImprovement sample_env (sample_request (Some ''token-u1'')) Followup
        (sample_state (sample_row 3 0 True)))"
proof -
  let ?st = "sample_state (sample_row 3 0 True)"
  have wf: "well_formed (sample_request tok)" for tok
    by (simp add: well_formed_def sample_request_def sample_body_def js_trim_samples)
  have b: "req_body (sample_request tok) = Some (sample_body tok)" for tok
    by (simp add: sample_request_def)
  have tok: "requestToken (sample_body (Some ''token-u1'')) (sample_request (Some ''token-u1'')) =
               Some (JString ''token-u1'')"
    by (simp add: requestToken_def sample_request_def sample_body_def js_or_def truthy_def)
  have good: "verifyUserFromToken sample_env (JString ''token-u1'') =
                Inr (''u1'', ''ada@example.org'')"
    by (simp add: verifyUserFromToken_def sample_env_def truthy_def)
  have pro: "getUserProStatus ''u1'' ?st = (Inr True, ?st)"
    by (simp add: getUserProStatus_def select_single_def tick_reliable sample_state_def
          sample_row_def)
  have ok: "fst (handlePromptImprovement sample_env (sample_request (Some ''token-u1''))
                   Followup ?st) =
            reply 200 (SuccessBody (''Improved: Current user input: '' @ [CHR 0x22]
                                     @ ''write a poem'' @ [CHR 0x22]) (- 1))"
    by (simp add: handler_defs select_single_def tick_reliable sample_env_def sample_request_def
          sample_body_def sample_state_def sample_row_def Let_def)
  have e: "anonymousCredits ?st = Map.empty"
    by (simp add: sample_state_def)
  from followup_pro_bypasses_balance [OF wf b tok good pro] ok e
  show ?thesis
    by simp
qed

section \<open>Completed requests\<close>




section \<open>Improve and refine with a token that fails verification\<close>




section \<open>Two requests in flight together\<close>

text \<open>A request that is done stays as it is; the first segment of a one-segment request
  runs at the first turn the request is given.\<close>

lemma run_two_done: "run_two s (Done r1, Done r2, st) = (Done r1, Done r2, st)"
  by (induction s) (simp_all add: run_two_def step_def resume_def split: turn.splits)

lemma run_two_first_done:
  "run_two s (Done r1, More (\<lambda>st. case g st of (r, st') \<Rightarrow> (Done r, st')), st) =
     (if Second \<in> set s then (Done r1, Done (fst (g st)), snd (g st))
      else (Done r1, More (\<lambda>st. case g st of (r, st') \<Rightarrow> (Done r, st')), st))"
proof (induction s)
  case Nil
  show ?case by (simp add: run_two_def)
next
  case (Cons t s)
  show ?case
  proof (cases t)
    case First
    with Cons show ?thesis
      by (simp add: run_two_def step_def resume_def)
  next
    case Second
    with run_two_done [of s r1 "fst (g st)" "snd (g st)"] show ?thesis
      by (cases "g st") (simp add: run_two_def step_def resume_def)
  qed
qed

lemma run_two_second_done:
  "run_two s (More (\<lambda>st. case f st of (r, st') \<Rightarrow> (Done r, st')), Done r2, st) =
     (if First \<in> set s then (Done (fst (f st)), Done r2, snd (f st))
      else (More (\<lambda>st. case f st of (r, st') \<Rightarrow> (Done r, st')), Done r2, st))"
proof (induction s)
  case Nil
  show ?case by (simp add: run_two_def)
next
  case (Cons t s)
  show ?case
  proof (cases t)
    case Second
    with Cons show ?thesis
      by (simp add: run_two_def step_def resume_def)
  next
    case First
    with run_two_done [of s "fst (f st)" r2 "snd (f st)"] show ?thesis
      by (cases "f st") (simp add: run_two_def step_def resume_def)
  qed
qed

text \<open>Two one-segment requests under a schedule that gives each of them a turn: the
  outcome is that of running the two segments one after the other, in the order of
  their first turns.\<close>

lemma run_two_atomic:
  assumes "First \<in> set s" and "Second \<in> set s"
  shows "run_two s (More (\<lambda>st. case f st of (r, st') \<Rightarrow> (Done r, st')),
                    More (\<lambda>st. case g st of (r, st') \<Rightarrow> (Done r, st')), st) =
           (if hd s = First
            then (Done (fst (f st)), Done (fst (g (snd (f st)))), snd (g (snd (f st))))
            else (Done (fst (f (snd (g st)))), Done (fst (g st)), snd (f (snd (g st)))))"
proof (cases s)
  case Nil
  with assms show ?thesis by simp
next
  case (Cons t r)
  show ?thesis
  proof (cases t)
    case First
    with Cons assms have "Second \<in> set r" by auto
    with run_two_first_done [of r "fst (f st)" g "snd (f st)"] Cons First show ?thesis
      by (cases "f st") (simp add: run_two_def step_def resume_def)
  next
    case Second
    with Cons assms have "First \<in> set r" by auto
    with run_two_second_done [of r f "fst (g st)" "snd (g st)"] Cons Second show ?thesis
      by (cases "g st") (simp add: run_two_def step_def resume_def)
  qed
qed

text \<open>The two segments of \<open>deduction\<close>, run one after the other, are
  \<open>deductFreeUserCredits\<close>.\<close>

lemma deductFreeUserCredits_split:
  "deductFreeUserCredits now userId amount st =
     (case deductFreeUserCredits_read now userId amount st of
        (Inl e, st') \<Rightarrow> (Inl e, st')
      | (Inr p, st') \<Rightarrow> deductFreeUserCredits_write userId p st')"
  by (simp add: deductFreeUserCredits_def deductFreeUserCredits_read_def
        deductFreeUserCredits_write_def Let_def split: prod.splits sum.splits)

lemma deduction_alone:
  "run_two [First, First] (deduction now userId amount, b, st) =
     (Done (fst (deductFreeUserCredits now userId amount st)), b,
      snd (deductFreeUserCredits now userId amount st))"
  by (simp add: run_two_def step_def resume_def deduction_def deductFreeUserCredits_split
        split: prod.splits sum.splits)

lemma reservation_alone:
  "anonymousCredits st ip = Some k \<Longrightarrow>
     (case deductAnonymousCredits ip 1 (anonymousCredits st) of
        (r, pool) \<Rightarrow> (r, st\<lparr>anonymousCredits := pool\<rparr>)) =
     (if k < 1 then (Inl InsufficientCredits, st)
      else (Inr (k - 1), st\<lparr>anonymousCredits := (anonymousCredits st)(ip \<mapsto> k - 1)\<rparr>))"
  by (simp add: deductAnonymousCredits_def getAnonymousCredits_def Let_def)

lemma anonymousReserve_alone:
  "anonymousCredits st ip = Some k \<Longrightarrow>
     anonymousReserve ip 1 st =
       (if k < 1 then (Inl (reply 402 (CreditsBody NO_CREDITS_ANONYMOUS k)), st)
        else (Inr (k - 1), st\<lparr>anonymousCredits := (anonymousCredits st)(ip \<mapsto> k - 1)\<rparr>))"
  by (simp add: anonymousReserve_def deductAnonymousCredits_def getAnonymousCredits_def Let_def)

text \<open>
  Claim C10. Two reservations of cost 1 in flight together against one anonymous
  identifier that holds exactly 1 credit, under every schedule that runs both: one of
  them succeeds with 0 remaining, the other fails with \<open>InsufficientCredits\<close> (answered 402
  by the handler), and the entry ends at 0. The account ledger is not so: with 3 daily
  credits used and 1 bonus credit, two deductions of 1 whose reads both come before
  their writes both succeed and leave the bonus at 0, where the same two deductions one
  after the other end with the second refused.
\<close>

theorem concurrent_reservations:
  "(\<forall>st ip schedule.
      anonymousCredits st ip = Some 1 \<and> First \<in> set schedule \<and> Second \<in> set schedule \<longrightarrow>
      (run_two schedule (reservation ip 1, reservation ip 1, st) =
         (if hd schedule = First
          then (Done (Inr 0), Done (Inl InsufficientCredits),
                st\<lparr>anonymousCredits := (anonymousCredits st)(ip \<mapsto> 0)\<rparr>)
          else (Done (Inl InsufficientCredits), Done (Inr 0),
                st\<lparr>anonymousCredits := (anonymousCredits st)(ip \<mapsto> 0)\<rparr>))) \<and>
      (run_two schedule (anonymousRequest ip 1, anonymousRequest ip 1, st) =
         (if hd schedule = First
          then (Done (Inr 0), Done (Inl (reply 402 (CreditsBody NO_CREDITS_ANONYMOUS 0))),
                st\<lparr>anonymousCredits := (anonymousCredits st)(ip \<mapsto> 0)\<rparr>)
          else (Done (Inl (reply 402 (CreditsBody NO_CREDITS_ANONYMOUS 0))), Done (Inr 0),
                st\<lparr>anonymousCredits := (anonymousCredits st)(ip \<mapsto> 0)\<rparr>)))) \<and>
   run_two [First, Second, First, Second]
     (deduction 1000 ''u1'' 1, deduction 1000 ''u1'' 1, sample_state (sample_row 3 1 False)) =
     (Done (Inr \<lparr>remainingCredits = 0, dailyCreditsRemaining = 0, creditSource = ''mixed''\<rparr>),
      Done (Inr \<lparr>remainingCredits = 0, dailyCreditsRemaining = 0, creditSource = ''mixed''\<rparr>),
      sample_state (sample_row 3 0 False)) \<and>
   run_two [First, First, Second, Second]
     (deduction 1000 ''u1'' 1, deduction 1000 ''u1'' 1, sample_state (sample_row 3 1 False)) =
     (Done (Inr \<lparr>remainingCredits = 0, dailyCreditsRemaining = 0, creditSource = ''mixed''\<rparr>),
      Done (Inl InsufficientCredits),
      sample_state (sample_row 3 0 False))"
proof -
  {
    fix st :: state and ip :: string and schedule :: "turn list"
    assume k: "anonymousCredits st ip = Some 1"
      and s: "First \<in> set schedule" "Second \<in> set schedule"
    let ?st0 = "st\<lparr>anonymousCredits := (anonymousCredits st)(ip \<mapsto> 0)\<rparr>"
    have k0: "anonymousCredits ?st0 ip = Some 0" by simp
    let ?f = "\<lambda>st :: state. case deductAnonymousCredits ip 1 (anonymousCredits st) of
                      (r, pool) \<Rightarrow> (r, st\<lparr>anonymousCredits := pool\<rparr>)"
    have r: "reservation ip 1 = More (\<lambda>st. case ?f st of (r, st') \<Rightarrow> (Done r, st'))"
      by (simp add: reservation_def fun_eq_iff split: prod.splits)
    have a: "anonymousRequest ip 1 =
               More (\<lambda>st. case anonymousReserve ip 1 st of (r, st') \<Rightarrow> (Done r, st'))"
      by (simp add: anonymousRequest_def)
    have f1: "?f st = (Inr 0, ?st0)"
      using reservation_alone [OF k] by simp
    have f2: "?f ?st0 = (Inl InsufficientCredits, ?st0)"
      using reservation_alone [OF k0] by simp
    have g1: "anonymousReserve ip 1 st = (Inr 0, ?st0)"
      using anonymousReserve_alone [OF k] by simp
    have g2: "anonymousReserve ip 1 ?st0 =
                (Inl (reply 402 (CreditsBody NO_CREDITS_ANONYMOUS 0)), ?st0)"
      using anonymousReserve_alone [OF k0] by simp
    have "run_two schedule (reservation ip 1, reservation ip 1, st) =
         (if hd schedule = First
          then (Done (Inr 0), Done (Inl InsufficientCredits), ?st0)
          else (Done (Inl InsufficientCredits), Done (Inr 0), ?st0))"
      unfolding r using run_two_atomic [OF s, of ?f ?f st] f1 f2 by simp
    moreover have "run_two schedule (anonymousRequest ip 1, anonymousRequest ip 1, st) =
         (if hd schedule = First
          then (Done (Inr 0), Done (Inl (reply 402 (CreditsBody NO_CREDITS_ANONYMOUS 0))), ?st0)
          else (Done (Inl (reply 402 (CreditsBody NO_CREDITS_ANONYMOUS 0))), Done (Inr 0), ?st0))"
      unfolding a
      using run_two_atomic [OF s, of "anonymousReserve ip 1" "anonymousReserve ip 1" st] g1 g2
      by simp
    ultimately have
      "run_two schedule (reservation ip 1, reservation ip 1, st) =
         (if hd schedule = First
          then (Done (Inr 0), Done (Inl InsufficientCredits), ?st0)
          else (Done (Inl InsufficientCredits), Done (Inr 0), ?st0)) \<and>
       run_two schedule (anonymousRequest ip 1, anonymousRequest ip 1, st) =
         (if hd schedule = First
          then (Done (Inr 0), Done (Inl (reply 402 (CreditsBody NO_CREDITS_ANONYMOUS 0))), ?st0)
          else (Done (Inl (reply 402 (CreditsBody NO_CREDITS_ANONYMOUS 0))), Done (Inr 0), ?st0))"
      by blast
  }
  note anonymous = this
  note defs = run_two_def step_def resume_def deduction_def deductFreeUserCredits_read_def
    deductFreeUserCredits_write_def resetDailyCreditsIfNeeded_def getUserCreditInfo_def
    select_single_def update_rows_def update_single_def DAILY_CREDITS_def tick_reliable
    sample_state_def sample_row_def Let_def
  have race: "run_two [First, Second, First, Second]
     (deduction 1000 ''u1'' 1, deduction 1000 ''u1'' 1, sample_state (sample_row 3 1 False)) =
     (Done (Inr \<lparr>remainingCredits = 0, dailyCreditsRemaining = 0, creditSource = ''mixed''\<rparr>),
      Done (Inr \<lparr>remainingCredits = 0, dailyCreditsRemaining = 0, creditSource = ''mixed''\<rparr>),
      sample_state (sample_row 3 0 False))"
    by (simp add: defs)
  have serial: "run_two [First, First, Second, Second]
     (deduction 1000 ''u1'' 1, deduction 1000 ''u1'' 1, sample_state (sample_row 3 1 False)) =
     (Done (Inr \<lparr>remainingCredits = 0, dailyCreditsRemaining = 0, creditSource = ''mixed''\<rparr>),
      Done (Inl InsufficientCredits),
      sample_state (sample_row 3 0 False))"
    by (simp add: defs)
  from anonymous race serial show ?thesis
    by blast
qed

theorem concurrent_reservations_witness:
  "run_two [Second, First]
     (reservation ''10.0.0.7'' 1, reservation ''10.0.0.7'' 1,
      (sample_state fresh_row)\<lparr>anonymousCredits := [''10.0.0.7'' \<mapsto> 1]\<rparr>) =
     (Done (Inl InsufficientCredits), Done (Inr 0),
      (sample_state fresh_row)\<lparr>anonymousCredits := [''10.0.0.7'' \<mapsto> 0]\<rparr>) \<and>
   run_two [First, Second]
     (anonymousRequest ''10.0.0.7'' 1, anonymousRequest ''10.0.0.7'' 1,
      (sample_state fresh_row)\<lparr>anonymousCredits := [''10.0.0.7'' \<mapsto> 1]\<rparr>) =
     (Done (Inr 0), Done (Inl (reply 402 (CreditsBody NO_CREDITS_ANONYMOUS 0))),
      (sample_state fresh_row)\<lparr>anonymousCredits := [''10.0.0.7'' \<mapsto> 0]\<rparr>)"
proof -
  let ?st = "(sample_state fresh_row)\<lparr>anonymousCredits := [''10.0.0.7'' \<mapsto> 1]\<rparr>"
  have k: "anonymousCredits ?st ''10.0.0.7'' = Some 1" by simp
  have u: "?st\<lparr>anonymousCredits := (anonymousCredits ?st)(''10.0.0.7'' \<mapsto> 0)\<rparr> =
           (sample_state fresh_row)\<lparr>anonymousCredits := [''10.0.0.7'' \<mapsto> 0]\<rparr>"
    by simp
  have a: "run_two [Second, First]
             (reservation ''10.0.0.7'' 1, reservation ''10.0.0.7'' 1, ?st) =
           (Done (Inl InsufficientCredits), Done (Inr 0),
            (sample_state fresh_row)\<lparr>anonymousCredits := [''10.0.0.7'' \<mapsto> 0]\<rparr>)"
    using concurrent_reservations k u
    by (auto dest!: spec [where x = ?st] spec [where x = "''10.0.0.7''"]
                    spec [where x = "[Second, First]"])
  have b: "run_two [First, Second]
             (anonymousRequest ''10.0.0.7'' 1, anonymousRequest ''10.0.0.7'' 1, ?st) =
           (Done (Inr 0), Done (Inl (reply 402 (CreditsBody NO_CREDITS_ANONYMOUS 0))),
            (sample_state fresh_row)\<lparr>anonymousCredits := [''10.0.0.7'' \<mapsto> 0]\<rparr>)"
    using concurrent_reservations k u
    by (auto dest!: spec [where x = ?st] spec [where x = "''10.0.0.7''"]
                    spec [where x = "[First, Second]"])
  from a b show ?thesis by blast
qed


end
